theory Spec2Isabelle
  imports Main "HOL-Library.Word"
begin

unbundle bit_operations_syntax

section \<open>Bytes, C strings and the C library\<close>

type_synonym u8 = "8 word"
type_synonym u16 = "16 word"

text \<open>
  A C string argument is a \<open>string option\<close>: \<open>None\<close> is the NULL pointer, \<open>Some s\<close>
  points at the characters \<open>s\<close> followed by the terminating NUL. The string ends at the
  first NUL character, so \<open>strlen\<close> counts the characters before it. A context pointer
  is always present in the model: the \<open>!ctx\<close> guards of the source have no branch here.
\<close>

definition c_chars :: "string \<Rightarrow> string" where
  "c_chars s = takeWhile (\<lambda>c. c \<noteq> CHR 0x00) s"

definition strlen :: "string \<Rightarrow> nat" where
  "strlen s = length (c_chars s)"

definition c_bytes :: "string \<Rightarrow> u8 list" where
  "c_bytes s = map of_char (c_chars s)"

text \<open>
  Undefined behaviour of the C program is a value of the model: a copy that writes past
  the end of its destination array, a copy that reads past the end of its source array,
  a dereferenced NULL pointer, and an overflow of signed arithmetic.
\<close>

datatype fault = Overrun | Overread | Null_pointer | Signed_overflow

text \<open>
  \<open>memcpy(dest, src, n)\<close> into an array \<open>dest\<close> of fixed size (the length of the list),
  from the start of \<open>src\<close>.
\<close>

definition memcpy :: "u8 list \<Rightarrow> u8 list \<Rightarrow> nat \<Rightarrow> fault + u8 list" where
  "memcpy dest src n =
     (if length src < n then Inl Overread
      else if length dest < n then Inl Overrun
      else Inr (take n src @ drop n dest))"

text \<open>
  A stack buffer of \<open>cap\<close> bytes that the source fills front to back through a running
  index \<open>len\<close>: the model keeps the \<open>len\<close> bytes written so far. \<open>buf_put\<close> is
  \<open>buf[len++] = b\<close> and \<open>buf_copy\<close> is \<open>memcpy(buf + len, src, n); len += n\<close>.
\<close>

definition buf_put :: "nat \<Rightarrow> u8 list \<Rightarrow> u8 \<Rightarrow> fault + u8 list" where
  "buf_put cap buf b = (if cap < length buf + 1 then Inl Overrun else Inr (buf @ [b]))"

definition buf_copy :: "nat \<Rightarrow> u8 list \<Rightarrow> u8 list \<Rightarrow> nat \<Rightarrow> fault + u8 list" where
  "buf_copy cap buf src n =
     (if length src < n then Inl Overread
      else if cap < length buf + n then Inl Overrun
      else Inr (buf @ take n src))"

text \<open>
  \<open>atoi\<close> of the C library: leading white space, an optional sign, then decimal digits up
  to the first other character. The result is the mathematical value of the digits; the
  only caller narrows it to 16 bits with \<open>htons\<close>. For a text whose value is beyond the
  range of \<open>long\<close> the C library's result is undefined, and the model keeps the value.
\<close>

definition isspace :: "char \<Rightarrow> bool" where
  "isspace c = (c \<in> set [CHR 0x20, CHR 0x09, CHR 0x0A, CHR 0x0B, CHR 0x0C, CHR 0x0D])"

definition isdigit :: "char \<Rightarrow> bool" where
  "isdigit c = (48 \<le> (of_char c :: nat) \<and> (of_char c :: nat) \<le> 57)"

definition digit_val :: "char \<Rightarrow> nat" where
  "digit_val c = of_char c - 48"

fun atoi_digits :: "int \<Rightarrow> string \<Rightarrow> int" where
  "atoi_digits acc [] = acc"
| "atoi_digits acc (c # cs) =
     (if isdigit c then atoi_digits (acc * 10 + int (digit_val c)) cs else acc)"

definition atoi :: "string \<Rightarrow> int" where
  "atoi s =
     (case dropWhile isspace s of
        [] \<Rightarrow> 0
      | c # cs \<Rightarrow>
          if c = CHR ''-'' then - atoi_digits 0 cs
          else if c = CHR ''+'' then atoi_digits 0 cs
          else atoi_digits 0 (c # cs))"

text \<open>
  \<open>htons\<close> takes a 16-bit value. The field \<open>d_port\<close> holds the port number whose
  network-order image is in memory: \<open>port_bytes\<close> are the two bytes \<open>memcpy\<close> reads from
  the field, high byte first on every host.
\<close>

definition htons :: "int \<Rightarrow> u16" where
  "htons x = word_of_int x"

definition port_bytes :: "u16 \<Rightarrow> u8 list" where
  "port_bytes p = [ucast (drop_bit 8 p), ucast p]"

text \<open>
  \<open>inet_pton(AF_INET, src, dst)\<close> of the C library: four decimal fields separated by
  dots, each of one to three digits with no leading zero and a value of at most 255. The
  scan keeps the octets finished so far, the value of the current one and whether it has
  a digit yet. The destination is written only when the text is accepted.
\<close>

fun pton4_scan :: "nat list \<Rightarrow> nat \<Rightarrow> bool \<Rightarrow> string \<Rightarrow> nat list option" where
  "pton4_scan done cur saw [] =
     (if saw \<and> length done = 3 then Some (done @ [cur]) else None)"
| "pton4_scan done cur saw (c # cs) =
     (if isdigit c then
        (let new = cur * 10 + digit_val c in
         if saw \<and> cur = 0 then None
         else if 255 < new then None
         else if \<not> saw \<and> 4 < length done + 1 then None
         else pton4_scan done new True cs)
      else if c = CHR ''.'' \<and> saw then
        (if length done + 1 = 4 then None else pton4_scan (done @ [cur]) 0 False cs)
      else None)"

definition inet_pton4 :: "string \<Rightarrow> u8 list option" where
  "inet_pton4 src = map_option (map of_nat) (pton4_scan [] 0 False (c_chars src))"

section \<open>Constants and the session context\<close>

text \<open>
  Modelled from the spec: the header \<open>sockslib.h\<close> with the protocol constants, the
  enumeration \<open>socks_err\<close> and the structures \<open>socks_ctx\<close>, \<open>socks_auth\<close> and
  \<open>socks_server\<close> is not among the sources. The address types are the spec's
  (IPv4 1, domain name 3, IPv6 4), the command is CONNECT = 1, and the version and the
  method numbers are those of the SOCKS5 wire protocol the spec refers to. The error
  numbers are the positions of the strings in the table of \<open>socks_strerror\<close>, which the
  source indexes by the enumeration.
\<close>

abbreviation SOCKS_VERSION :: u8 where "SOCKS_VERSION \<equiv> 5"
abbreviation SOCKS_AUTH_VERSION :: u8 where "SOCKS_AUTH_VERSION \<equiv> 1"
abbreviation SOCKS_CMD_CONNECT :: u8 where "SOCKS_CMD_CONNECT \<equiv> 1"

definition SOCKS_NO_AUTH :: int where "SOCKS_NO_AUTH = 0"
definition SOCKS_AUTH_USERPASS :: int where "SOCKS_AUTH_USERPASS = 2"

definition SOCKS_ATYP_IPV4 :: int where "SOCKS_ATYP_IPV4 = 1"
definition SOCKS_ATYP_NAME :: int where "SOCKS_ATYP_NAME = 3"
definition SOCKS_ATYP_IPV6 :: int where "SOCKS_ATYP_IPV6 = 4"

definition SOCKS_ERR_OK :: int where "SOCKS_ERR_OK = 0"
definition SOCKS_ERR_SERV_FAIL :: int where "SOCKS_ERR_SERV_FAIL = 1"
definition SOCKS_ERR_CONN_REFUSED :: int where "SOCKS_ERR_CONN_REFUSED = 5"
definition SOCKS_ERR_ADDR_NOTSUPP :: int where "SOCKS_ERR_ADDR_NOTSUPP = 8"
definition SOCKS_ERR_AUTH_NOTSUPP :: int where "SOCKS_ERR_AUTH_NOTSUPP = 9"
definition SOCKS_ERR_BAD_AUTH :: int where "SOCKS_ERR_BAD_AUTH = 10"
definition SOCKS_ERR_TOO_LONG :: int where "SOCKS_ERR_TOO_LONG = 11"
definition SOCKS_ERR_NO_MEM :: int where "SOCKS_ERR_NO_MEM = 12"
definition SOCKS_ERR_BAD_ARG :: int where "SOCKS_ERR_BAD_ARG = 13"
definition SOCKS_ERR_EMPTY :: int where "SOCKS_ERR_EMPTY = 14"
definition SOCKS_ERR_SYS_ERRNO :: int where "SOCKS_ERR_SYS_ERRNO = 15"

text \<open>
  Modelled from the spec: the structures of \<open>sockslib.h\<close>, field by field as the source
  uses them. The arrays \<open>username\<close>, \<open>password\<close> and the union \<open>d_addr\<close> are byte
  lists whose length is the size of the C array. The members \<open>ip4\<close>, \<open>ip6\<close> and
  \<open>name\<close> of the union share its storage from the first byte on, so one list stands for
  all three. The lengths are \<open>size_t\<close> values (the source compares them with 255 after
  taking them from \<open>strlen\<close>), \<open>authed\<close> is the spec's boolean, and \<open>s_addr\<close> is the
  pointer to the chosen address candidate, \<open>None\<close> for NULL, with the candidate itself
  left opaque. The field \<open>method\<close> of \<open>socks_auth\<close> is \<open>auth_method\<close> here.
\<close>

record socks_auth =
  auth_method :: int
  authed :: bool
  username :: "u8 list"
  password :: "u8 list"
  user_len :: nat
  pass_len :: nat

record socks_server =
  s_addr :: "nat option"
  s_port :: u16
  fd :: int

record socks_ctx =
  ver :: u8
  atyp :: int
  d_addr :: "u8 list"
  d_name_len :: nat
  d_port :: u16
  reply :: int
  auth :: socks_auth
  server :: socks_server

section \<open>The collaborators: connect, reliable send and reliable read\<close>

text \<open>
  The peer and the operating system, as far as one session sees them: the result of
  \<open>connect(2)\<close>, whether \<open>malloc\<close> succeeds, the bytes the server delivers (in order),
  the frames written so far, and how many more bytes the connection takes before a
  write fails.
\<close>

record net =
  conn_ret :: int
  heap_ok :: bool
  rx :: "u8 list"
  tx :: "u8 list list"
  tx_room :: nat

text \<open>
  Modelled from the spec: \<open>sockslib_send\<close> and \<open>sockslib_read\<close> are declared in
  \<open>util.h\<close>, which is not among the sources. The spec gives their contract: the
  reliable write transfers exactly the given bytes or fails, the reliable read receives
  exactly the requested number of bytes or fails, and a failure of the operating system
  is the SysErrno kind. A descriptor below zero is no descriptor, so both fail on it.
  A read that the peer cannot fill uses up what had arrived.
\<close>

definition sockslib_send :: "int \<Rightarrow> u8 list \<Rightarrow> net \<Rightarrow> int \<times> net" where
  "sockslib_send d buf w =
     (if d < 0 \<or> tx_room w < length buf then (- SOCKS_ERR_SYS_ERRNO, w)
      else (0, w\<lparr>tx := tx w @ [buf], tx_room := tx_room w - length buf\<rparr>))"

definition sockslib_read :: "int \<Rightarrow> nat \<Rightarrow> net \<Rightarrow> (int + u8 list) \<times> net" where
  "sockslib_read d n w =
     (if d < 0 then (Inl (- SOCKS_ERR_SYS_ERRNO), w)
      else if length (rx w) < n then (Inl (- SOCKS_ERR_SYS_ERRNO), w\<lparr>rx := []\<rparr>)
      else (Inr (take n (rx w)), w\<lparr>rx := drop n (rx w)\<rparr>))"

section \<open>Sequencing of steps that may be undefined\<close>

definition after :: "fault + 'a \<Rightarrow> ('a \<Rightarrow> fault + 'b) \<Rightarrow> fault + 'b" where
  "after r f = (case r of Inl e \<Rightarrow> Inl e | Inr x \<Rightarrow> f x)"

section \<open>Context lifecycle\<close>

text \<open>
  \<open>socks_set_server\<close> (name resolution and the creation of the socket) and \<open>socks_end\<close>
  (closing the descriptor and releasing the memory) act on the resolver, the descriptor
  table and the heap only; the model starts from a context whose server fields are
  given.
\<close>

definition server_clear :: "socks_ctx \<Rightarrow> socks_ctx" where
  "server_clear ctx = ctx\<lparr>server := (server ctx)\<lparr>s_addr := None, s_port := 0, fd := - 1\<rparr>\<rparr>"

definition auth_clear :: "socks_ctx \<Rightarrow> socks_ctx" where
  "auth_clear ctx =
     ctx\<lparr>auth := (auth ctx)\<lparr>auth_method := 0, authed := False,
       username := replicate (length (username (auth ctx))) 0,
       password := replicate (length (password (auth ctx))) 0,
       user_len := 0, pass_len := 0\<rparr>\<rparr>"

text \<open>
  \<open>socks_init\<close>: \<open>raw\<close> is the block \<open>malloc\<close> hands out, with whatever it holds;
  \<open>None\<close> is the NULL result when the allocation fails.
\<close>

definition socks_init :: "bool \<Rightarrow> socks_ctx \<Rightarrow> socks_ctx option" where
  "socks_init ok raw =
     (if \<not> ok then None
      else Some (server_clear (auth_clear
        (raw\<lparr>atyp := 0, d_addr := (d_addr raw)[0 := 0], d_port := 0, d_name_len := 0,
             reply := - 1, ver := SOCKS_VERSION\<rparr>))))"

section \<open>Error strings\<close>

definition err_str :: "string list" where
  "err_str =
     [[], ''SOCKS server failure'', ''Connection not allowed'',
      ''Network unreachable'', ''Host unreachable'',
      ''Connection refused'', ''TTL expired'', ''Command not supported'',
      ''Address type not supported'', ''Authentication method not supported'',
      ''Invalid authentication'', ''Value too long'',
      ''Out of memory'', ''Invalid argument'',
      ''Empty Request/Response'', ''System error (check errno)'']"

text \<open>
  \<open>socks_strerror\<close>: the argument is a 32-bit \<open>int\<close>, read with \<open>sint\<close>. The source
  negates a negative code; at the least \<open>int\<close> that negation overflows, which C leaves
  undefined.
\<close>

definition socks_strerror :: "32 word \<Rightarrow> fault + string" where
  "socks_strerror code0 =
     (if sint code0 < 0 \<and> sint code0 = - 2147483648 then Inl Signed_overflow
      else
        let code = (if sint code0 < 0 then - code0 else code0) in
        if SOCKS_ERR_OK \<le> sint code \<and> sint code \<le> SOCKS_ERR_SYS_ERRNO
        then Inr (err_str ! nat (sint code))
        else Inr ''Unknown error'')"

section \<open>Credentials\<close>

definition socks_set_auth ::
  "socks_ctx \<Rightarrow> string option \<Rightarrow> string option \<Rightarrow> fault + int \<times> socks_ctx" where
  "socks_set_auth ctx u p =
     (case (u, p) of
        (Some us, Some ps) \<Rightarrow>
          if c_chars us = [] \<or> c_chars ps = [] then Inr (- SOCKS_ERR_BAD_ARG, ctx)
          else
            let ul = strlen us; pl = strlen ps in
            if 255 < ul \<or> 255 < pl then Inr (- SOCKS_ERR_BAD_AUTH, ctx)
            else
              after (memcpy (username (auth ctx)) (c_bytes us) ul) (\<lambda>un.
              after (memcpy (password (auth ctx)) (c_bytes ps) pl) (\<lambda>pw.
              Inr (SOCKS_ERR_OK,
                   ctx\<lparr>auth := (auth ctx)\<lparr>username := un, password := pw,
                                           user_len := ul, pass_len := pl\<rparr>\<rparr>)))
      | _ \<Rightarrow> Inr (- SOCKS_ERR_BAD_ARG, ctx))"

section \<open>Method negotiation and authentication\<close>

definition socks_get_auth_method :: "int \<Rightarrow> net \<Rightarrow> int \<times> net" where
  "socks_get_auth_method d w =
     (let req_buf = [SOCKS_VERSION, 2, word_of_int SOCKS_NO_AUTH, word_of_int SOCKS_AUTH_USERPASS];
          (ret, w1) = sockslib_send d req_buf w
      in if ret < 0 then (ret, w1)
         else (case sockslib_read d 2 w1 of
                 (Inl e, w2) \<Rightarrow> (e, w2)
               | (Inr resp_buf, w2) \<Rightarrow> (uint (resp_buf ! 1), w2)))"

text \<open>
  The frame of the username/password sub-negotiation, built in a block of
  \<open>3 + user_len + pass_len\<close> bytes.
\<close>

definition userpass_frame :: "socks_auth \<Rightarrow> fault + u8 list" where
  "userpass_frame a =
     (let cap = 3 + user_len a + pass_len a in
      after (buf_put cap [] SOCKS_AUTH_VERSION) (\<lambda>b.
      after (buf_put cap b (of_nat (user_len a))) (\<lambda>b.
      after (buf_copy cap b (username a) (user_len a)) (\<lambda>b.
      after (buf_put cap b (of_nat (pass_len a))) (\<lambda>b.
      buf_copy cap b (password a) (pass_len a))))))"

definition socks_connect_server :: "socks_ctx \<Rightarrow> net \<Rightarrow> fault + int \<times> socks_ctx \<times> net" where
  "socks_connect_server ctx w =
     (case s_addr (server ctx) of
        None \<Rightarrow> Inl Null_pointer
      | Some _ \<Rightarrow>
          if conn_ret w < 0 then Inr (conn_ret w, ctx, w)
          else
            let (ret, w1) = socks_get_auth_method (fd (server ctx)) w in
            if ret < 0 then Inr (ret, ctx, w1)
            else
              let ctx1 = ctx\<lparr>auth := (auth ctx)\<lparr>auth_method := ret\<rparr>\<rparr> in
              if auth_method (auth ctx1) = SOCKS_NO_AUTH then
                Inr (SOCKS_ERR_OK, ctx1\<lparr>auth := (auth ctx1)\<lparr>authed := True\<rparr>\<rparr>, w1)
              else if auth_method (auth ctx1) = SOCKS_AUTH_USERPASS then
                if \<not> heap_ok w1 then Inr (- SOCKS_ERR_NO_MEM, ctx1, w1)
                else
                  after (userpass_frame (auth ctx1)) (\<lambda>auth_buf.
                    let (ret, w2) = sockslib_send (fd (server ctx1)) auth_buf w1 in
                    if ret < 0 then Inr (ret, ctx1, w2)
                    else
                      (case sockslib_read (fd (server ctx1)) 2 w2 of
                         (Inl e, w3) \<Rightarrow> Inr (e, ctx1, w3)
                       | (Inr res_buf, w3) \<Rightarrow>
                           if res_buf ! 1 \<noteq> 0 then Inr (- SOCKS_ERR_BAD_AUTH, ctx1, w3)
                           else Inr (SOCKS_ERR_OK,
                                     ctx1\<lparr>auth := (auth ctx1)\<lparr>authed := True\<rparr>\<rparr>, w3)))
              else Inr (- SOCKS_ERR_AUTH_NOTSUPP, ctx1, w1))"

section \<open>Destination setters\<close>

text \<open>
  \<open>socks_setaddr\<close>: \<open>pton\<close> is the text conversion of the address family and \<open>n\<close> the
  size of its binary form; \<open>inet_pton\<close> gives 1 and writes the destination when the text
  is accepted, and 0 otherwise.
\<close>

definition socks_setaddr ::
  "(string \<Rightarrow> u8 list option) \<Rightarrow> nat \<Rightarrow> u8 list \<Rightarrow> string \<Rightarrow> fault + int \<times> u8 list" where
  "socks_setaddr pton n dest ip =
     (case pton ip of
        None \<Rightarrow> Inr (- SOCKS_ERR_ADDR_NOTSUPP, dest)
      | Some bs \<Rightarrow> after (memcpy dest bs n) (\<lambda>d. Inr (SOCKS_ERR_OK, d)))"

definition socks_set_addr4 ::
  "socks_ctx \<Rightarrow> string option \<Rightarrow> string option \<Rightarrow> fault + int \<times> socks_ctx" where
  "socks_set_addr4 ctx ip port =
     (case (ip, port) of
        (Some i, Some p) \<Rightarrow>
          if c_chars i = [] \<or> c_chars p = [] then Inr (- SOCKS_ERR_BAD_ARG, ctx)
          else
            let ctx1 = ctx\<lparr>atyp := SOCKS_ATYP_IPV4, d_port := htons (atoi p)\<rparr> in
            after (socks_setaddr inet_pton4 4 (d_addr ctx1) i) (\<lambda>(ret, d).
              Inr (ret, ctx1\<lparr>d_addr := d\<rparr>))
      | _ \<Rightarrow> Inr (- SOCKS_ERR_BAD_ARG, ctx))"

text \<open>
  \<open>socks_set_addr6\<close>: the conversion of IPv6 text is the C library's and is a parameter
  here.
\<close>

definition socks_set_addr6 ::
  "(string \<Rightarrow> u8 list option) \<Rightarrow> socks_ctx \<Rightarrow> string option \<Rightarrow> string option
     \<Rightarrow> fault + int \<times> socks_ctx" where
  "socks_set_addr6 pton6 ctx ip port =
     (case (ip, port) of
        (Some i, Some p) \<Rightarrow>
          if c_chars i = [] \<or> c_chars p = [] then Inr (- SOCKS_ERR_BAD_ARG, ctx)
          else
            let ctx1 = ctx\<lparr>atyp := SOCKS_ATYP_IPV6, d_port := htons (atoi p)\<rparr> in
            after (socks_setaddr pton6 16 (d_addr ctx1) i) (\<lambda>(ret, d).
              Inr (ret, ctx1\<lparr>d_addr := d\<rparr>))
      | _ \<Rightarrow> Inr (- SOCKS_ERR_BAD_ARG, ctx))"

definition socks_set_addrname ::
  "socks_ctx \<Rightarrow> string option \<Rightarrow> string option \<Rightarrow> fault + int \<times> socks_ctx" where
  "socks_set_addrname ctx name port =
     (case (name, port) of
        (Some nm, Some p) \<Rightarrow>
          if c_chars nm = [] \<or> c_chars p = [] then Inr (- SOCKS_ERR_BAD_ARG, ctx)
          else
            let ctx1 = ctx\<lparr>d_name_len := strlen nm\<rparr> in
            if 255 < d_name_len ctx1 then Inr (- SOCKS_ERR_TOO_LONG, ctx1)
            else
              let ctx2 = ctx1\<lparr>atyp := SOCKS_ATYP_NAME, d_port := htons (atoi p)\<rparr> in
              after (memcpy (d_addr ctx2) (c_bytes nm) (d_name_len ctx2)) (\<lambda>d.
                Inr (SOCKS_ERR_OK, ctx2\<lparr>d_addr := d\<rparr>))
      | _ \<Rightarrow> Inr (- SOCKS_ERR_BAD_ARG, ctx))"

section \<open>The CONNECT request and its reply\<close>

text \<open>
  The request frame in the 512-byte buffer \<open>req_buf\<close>: \<open>Inr None\<close> is the \<open>default\<close>
  branch of the switch on the address type, which returns before anything is sent.
\<close>

definition req_port :: "socks_ctx \<Rightarrow> u8 list \<Rightarrow> fault + u8 list option" where
  "req_port ctx b = after (buf_copy 512 b (port_bytes (d_port ctx)) 2) (\<lambda>b. Inr (Some b))"

definition connect_request :: "socks_ctx \<Rightarrow> fault + u8 list option" where
  "connect_request ctx =
     after (buf_put 512 [] SOCKS_VERSION) (\<lambda>b.
     after (buf_put 512 b SOCKS_CMD_CONNECT) (\<lambda>b.
     after (buf_put 512 b 0) (\<lambda>b.
     after (buf_put 512 b (word_of_int (atyp ctx))) (\<lambda>b.
       if atyp ctx = SOCKS_ATYP_IPV4 then
         after (buf_copy 512 b (d_addr ctx) 4) (req_port ctx)
       else if atyp ctx = SOCKS_ATYP_NAME then
         after (buf_put 512 b (of_nat (d_name_len ctx))) (\<lambda>b.
         after (buf_copy 512 b (d_addr ctx) (d_name_len ctx)) (req_port ctx))
       else if atyp ctx = SOCKS_ATYP_IPV6 then
         after (buf_copy 512 b (d_addr ctx) 16) (req_port ctx)
       else Inr None))))"

definition socks_connect :: "socks_ctx \<Rightarrow> net \<Rightarrow> fault + int \<times> socks_ctx \<times> net" where
  "socks_connect ctx w =
     after (connect_request ctx) (\<lambda>r.
       case r of
         None \<Rightarrow> Inr (- SOCKS_ERR_ADDR_NOTSUPP, ctx, w)
       | Some req_buf \<Rightarrow>
           let len = length req_buf;
               (ret, w1) = sockslib_send (fd (server ctx)) req_buf w
           in if ret < 0 then Inr (ret, ctx, w1)
              else
                (case sockslib_read (fd (server ctx)) len w1 of
                   (Inl e, w2) \<Rightarrow> Inr (e, ctx, w2)
                 | (Inr resp_buf, w2) \<Rightarrow>
                     let ctx1 = ctx\<lparr>reply := uint (resp_buf ! 1)\<rparr> in
                     Inr (if reply ctx1 \<noteq> 0 then - reply ctx1 else fd (server ctx1),
                          ctx1, w2)))"

section \<open>Example sessions\<close>

text \<open>
  A context as \<open>socks_init\<close> leaves it on a zeroed block with 256-byte arrays, bound to
  a server on descriptor 3; the same context after a domain name was set; and a text of
  256 characters.
\<close>

definition ctx_fresh :: socks_ctx where
  "ctx_fresh =
     \<lparr>ver = SOCKS_VERSION, atyp = 0, d_addr = replicate 256 0, d_name_len = 0, d_port = 0,
      reply = - 1,
      auth = \<lparr>auth_method = 0, authed = False, username = replicate 256 0,
              password = replicate 256 0, user_len = 0, pass_len = 0\<rparr>,
      server = \<lparr>s_addr = Some 0, s_port = 1080, fd = 3\<rparr>\<rparr>"

definition ctx_named :: socks_ctx where
  "ctx_named = ctx_fresh\<lparr>d_name_len := 11, atyp := SOCKS_ATYP_NAME, d_port := 443,
     d_addr := c_bytes ''example.com'' @ replicate 245 0\<rparr>"

definition long_text :: string where
  "long_text = replicate 256 (CHR ''a'')"

text \<open>The CONNECT request for \<open>example.com\<close>, port 443.\<close>

definition frame_named :: "u8 list" where
  "frame_named = [SOCKS_VERSION, SOCKS_CMD_CONNECT, 0, 3, 11] @ c_bytes ''example.com'' @ [1, 187]"

text \<open>
  The same context with the address 127.0.0.1, port 80, and a server that answers the
  CONNECT request with a reply of ten bytes (success, bound address 10.0.0.1, port 8080)
  and goes on with twelve bytes of the tunnelled stream.
\<close>

definition ctx_v4 :: socks_ctx where
  "ctx_v4 = ctx_fresh\<lparr>atyp := SOCKS_ATYP_IPV4, d_port := 80,
     d_addr := [127, 0, 0, 1] @ replicate 252 0\<rparr>"

definition net_reply :: net where
  "net_reply =
     \<lparr>conn_ret = 0, heap_ok = True,
      rx = [5, 0, 0, 1, 10, 0, 0, 1, 31, 144] @ c_bytes ''HTTP/1.1 200'',
      tx = [], tx_room = 4096\<rparr>"

section \<open>The reply frame in the words of the specification\<close>

text \<open>
  The length of a CONNECT reply as the specification lays it out, to be compared with
  what \<open>socks_connect\<close> reads: a header of 4 bytes, an address whose length depends on
  the address type in the header (4 bytes for IPv4, 16 for IPv6, a length byte and that
  many bytes for a domain name), and a port of 2 bytes.
\<close>

definition spec_reply_len :: "u8 list \<Rightarrow> nat option" where
  "spec_reply_len bs =
     (if length bs < 4 then None
      else if uint (bs ! 3) = SOCKS_ATYP_IPV4 then Some (4 + 4 + 2)
      else if uint (bs ! 3) = SOCKS_ATYP_IPV6 then Some (4 + 16 + 2)
      else if uint (bs ! 3) = SOCKS_ATYP_NAME then
        (if length bs < 5 then None else Some (4 + (1 + unat (bs ! 4)) + 2))
      else None)"

text \<open>The number of bytes a call of \<open>socks_connect\<close> takes from the server's stream.\<close>

definition connect_read_count :: "socks_ctx \<Rightarrow> net \<Rightarrow> nat option" where
  "connect_read_count ctx w =
     (case socks_connect ctx w of
        Inl f \<Rightarrow> None
      | Inr (ret, c, w') \<Rightarrow> Some (length (rx w) - length (rx w')))"

text \<open>A server that refuses the connection: reply status 5.\<close>

definition net_refused :: net where
  "net_refused =
     \<lparr>conn_ret = 0, heap_ok = True, rx = [5, 5, 0, 1, 0, 0, 0, 0, 0, 0],
      tx = [], tx_room = 4096\<rparr>"

section \<open>The sub-negotiation frame in the words of the specification\<close>

text \<open>
  The layout the specification gives for the username/password request, to be compared
  with the frame the source builds: the version of the sub-negotiation, the length of
  the user name in one byte, the bytes of the user name, the length of the password in
  one byte, the bytes of the password.
\<close>

definition spec_userpass_layout :: "socks_auth \<Rightarrow> u8 list" where
  "spec_userpass_layout a =
     [SOCKS_AUTH_VERSION] @ [of_nat (user_len a)] @ take (user_len a) (username a)
       @ [of_nat (pass_len a)] @ take (pass_len a) (password a)"

text \<open>
  A context with the credentials \<open>admin\<close> and \<open>password\<close> (lengths 5 and 8), and servers
  that select no authentication, select username/password and then reject the
  credentials, and accept no offered method.
\<close>

definition ctx_creds :: socks_ctx where
  "ctx_creds = ctx_fresh\<lparr>auth := (auth ctx_fresh)\<lparr>
     username := c_bytes ''admin'' @ replicate 251 0,
     password := c_bytes ''password'' @ replicate 248 0,
     user_len := 5, pass_len := 8\<rparr>\<rparr>"


definition net_badauth :: net where
  "net_badauth = \<lparr>conn_ret = 0, heap_ok = True, rx = [5, 2, 1, 1], tx = [], tx_room = 4096\<rparr>"


text \<open>
  The context with the IPv6 address 2001:db8::1, port 443, and the IPv4 context with no
  server bound (descriptor -1).
\<close>

definition ctx_v6 :: socks_ctx where
  "ctx_v6 = ctx_fresh\<lparr>atyp := SOCKS_ATYP_IPV6, d_port := 443,
     d_addr := [32, 1, 13, 184, 0, 0, 0, 0, 0, 0, 0, 0, 0, 0, 0, 1] @ replicate 240 0\<rparr>"

definition ctx_unbound :: socks_ctx where
  "ctx_unbound = ctx_v4\<lparr>server := \<lparr>s_addr = None, s_port = 0, fd = - 1\<rparr>\<rparr>"

section \<open>Basic facts\<close>

lemmas socks_consts =
  SOCKS_NO_AUTH_def SOCKS_AUTH_USERPASS_def
  SOCKS_ATYP_IPV4_def SOCKS_ATYP_NAME_def SOCKS_ATYP_IPV6_def
  SOCKS_ERR_OK_def SOCKS_ERR_SERV_FAIL_def SOCKS_ERR_CONN_REFUSED_def
  SOCKS_ERR_ADDR_NOTSUPP_def SOCKS_ERR_AUTH_NOTSUPP_def SOCKS_ERR_BAD_AUTH_def
  SOCKS_ERR_TOO_LONG_def SOCKS_ERR_NO_MEM_def SOCKS_ERR_BAD_ARG_def
  SOCKS_ERR_EMPTY_def SOCKS_ERR_SYS_ERRNO_def

section \<open>The context after initialisation\<close>

lemma socks_init_state:
  assumes "socks_init True raw = Some c"
  shows "atyp c = 0 \<and> d_name_len c = 0 \<and> d_port c = 0 \<and> reply c = - 1
    \<and> \<not> authed (auth c) \<and> user_len (auth c) = 0 \<and> pass_len (auth c) = 0
    \<and> s_addr (server c) = None \<and> fd (server c) = - 1"
  using assms by (auto simp: socks_init_def auth_clear_def server_clear_def)

lemma replicate_update_same: "(replicate n x)[i := x] = replicate n x"
  by (induction n arbitrary: i) (simp_all split: nat.split)

lemma socks_init_fresh:
  "socks_init True ctx_fresh =
     Some (ctx_fresh\<lparr>server := \<lparr>s_addr = None, s_port = 0, fd = - 1\<rparr>\<rparr>)"
  by (simp add: socks_init_def auth_clear_def server_clear_def ctx_fresh_def
      replicate_update_same)

section \<open>Error strings: the sign of the code\<close>

lemma sint_neg32:
  fixes c :: "32 word"
  shows "sint (- c) = (if sint c = - 2147483648 then - 2147483648 else - sint c)"
proof -
  have e: "sint (- c) = signed_take_bit 31 (- sint c)"
    by (simp add: sint_word_ariths)
  have lo: "- 2147483648 \<le> sint c" using sint_ge [of c] by simp
  have hi: "sint c < 2147483648" using sint_lt [of c] by simp
  show ?thesis
  proof (cases "sint c = - 2147483648")
    case True
    then show ?thesis using e by simp
  next
    case False
    with lo hi have "- 2147483648 \<le> - sint c" "- sint c < 2147483648" by auto
    then have "signed_take_bit 31 (- sint c) = - sint c"
      by (simp add: signed_take_bit_int_eq_self)
    with e False show ?thesis by simp
  qed
qed


text \<open>At the least \<open>int\<close> the negation of the source overflows.\<close>

lemma strerror_int_min: "socks_strerror (- 2147483648) = Inl Signed_overflow"
  by (simp add: socks_strerror_def)

text \<open>
  What \<open>socks_strerror\<close> computes for every other code, in terms of the magnitude of its
  argument.
\<close>

lemma strerror_magnitude:
  fixes c :: "32 word"
  assumes "sint c \<noteq> - 2147483648"
  shows "socks_strerror c =
    Inr (if \<bar>sint c\<bar> \<le> 15 then err_str ! nat \<bar>sint c\<bar> else ''Unknown error'')"
proof (cases "sint c < 0")
  case True
  from assms have "sint (- c) = - sint c" by (simp add: sint_neg32)
  with True assms show ?thesis
    by (simp add: socks_strerror_def SOCKS_ERR_OK_def SOCKS_ERR_SYS_ERRNO_def)
next
  case False
  then show ?thesis
    by (simp add: socks_strerror_def SOCKS_ERR_OK_def SOCKS_ERR_SYS_ERRNO_def)
qed



section \<open>Evaluating the C library on the examples\<close>

lemma c_chars_long_text: "c_chars long_text = long_text"
  by (simp add: c_chars_def long_text_def takeWhile_replicate)

lemma strlen_long_text: "strlen long_text = 256"
  by (simp add: strlen_def c_chars_long_text) (simp add: long_text_def)

lemma atoi_80: "atoi ''80'' = 80"
  by (simp add: atoi_def isspace_def isdigit_def digit_val_def)

lemma atoi_443: "atoi ''443'' = 443"
  by (simp add: atoi_def isspace_def isdigit_def digit_val_def)

lemma inet_pton4_300: "inet_pton4 ''300.1.1.1'' = None"
  by (simp add: inet_pton4_def c_chars_def isdigit_def digit_val_def)

lemma inet_pton4_loopback: "inet_pton4 ''127.0.0.1'' = Some [127, 0, 0, 1]"
  by (simp add: inet_pton4_def c_chars_def isdigit_def digit_val_def)

lemma set_addrname_example:
  "socks_set_addrname ctx_fresh (Some ''example.com'') (Some ''443'') = Inr (0, ctx_named)"
  by (simp add: socks_set_addrname_def ctx_named_def ctx_fresh_def c_chars_def strlen_def Let_def
     memcpy_def after_def c_bytes_def atoi_443 htons_def socks_consts)

section \<open>Credentials that are too long\<close>

text \<open>
  C10. When the user name and the password are both non-empty and one of them is longer
  than 255 bytes, \<open>socks_set_auth\<close> returns \<open>-SOCKS_ERR_BAD_AUTH\<close>, which is neither
  \<open>-SOCKS_ERR_TOO_LONG\<close> nor \<open>-SOCKS_ERR_BAD_ARG\<close>, and the context (with its stored
  user name, password and their lengths) is the one it was given.
\<close>

theorem socks_set_auth_rejects_long:
  assumes "strlen u \<noteq> 0" and "strlen p \<noteq> 0" and "255 < strlen u \<or> 255 < strlen p"
  shows "socks_set_auth ctx (Some u) (Some p) = Inr (- SOCKS_ERR_BAD_AUTH, ctx)
    \<and> - SOCKS_ERR_BAD_AUTH \<noteq> - SOCKS_ERR_TOO_LONG
    \<and> - SOCKS_ERR_BAD_AUTH \<noteq> - SOCKS_ERR_BAD_ARG"
  using assms
  by (simp add: socks_set_auth_def Let_def strlen_def SOCKS_ERR_BAD_AUTH_def
      SOCKS_ERR_TOO_LONG_def SOCKS_ERR_BAD_ARG_def)

theorem socks_set_auth_rejects_long_witness:
  "socks_set_auth ctx_fresh (Some long_text) (Some ''secret'') = Inr (- 10, ctx_fresh)
   \<and> socks_set_auth ctx_fresh (Some ''admin'') (Some long_text) = Inr (- 10, ctx_fresh)"
proof -
  have a: "strlen ''secret'' \<noteq> 0" "strlen ''admin'' \<noteq> 0"
    by (simp_all add: strlen_def c_chars_def)
  have b: "strlen long_text \<noteq> 0" "255 < strlen long_text"
    by (simp_all add: strlen_long_text)
  show ?thesis
    using socks_set_auth_rejects_long [of long_text "''secret''" ctx_fresh]
      socks_set_auth_rejects_long [of "''admin''" long_text ctx_fresh] a b
    by (simp add: SOCKS_ERR_BAD_AUTH_def)
qed

section \<open>Rejected destinations\<close>

lemma set_addrname_too_long:
  assumes "c_chars p \<noteq> []" "255 < strlen nm"
  shows "socks_set_addrname ctx (Some nm) (Some p) =
    Inr (- SOCKS_ERR_TOO_LONG, ctx\<lparr>d_name_len := strlen nm\<rparr>)"
proof -
  from assms(2) have "c_chars nm \<noteq> []" by (auto simp: strlen_def)
  with assms show ?thesis by (simp add: socks_set_addrname_def Let_def)
qed

text \<open>
  C3. On a context that holds the name \<open>example.com\<close> (length 11), \<open>socks_set_addrname\<close>
  with a name of 256 bytes returns \<open>-SOCKS_ERR_TOO_LONG\<close> and leaves the address type,
  the stored bytes and the port as they were, but the stored name length is 256
  afterwards: the source assigns \<open>d_name_len\<close> before it compares it with 255.
\<close>

theorem socks_set_addrname_too_long_stores_length:
  "socks_set_addrname ctx_named (Some long_text) (Some ''80'') =
     Inr (- SOCKS_ERR_TOO_LONG, ctx_named\<lparr>d_name_len := 256\<rparr>)
   \<and> d_name_len ctx_named = 11"
proof -
  have "c_chars ''80'' \<noteq> []" by (simp add: c_chars_def)
  then show ?thesis
    using set_addrname_too_long [of "''80''" long_text ctx_named]
    by (simp add: strlen_long_text) (simp add: ctx_named_def)
qed

lemma set_addr4_malformed:
  assumes "c_chars i \<noteq> []" "c_chars p \<noteq> []" "inet_pton4 i = None"
  shows "socks_set_addr4 ctx (Some i) (Some p) =
    Inr (- SOCKS_ERR_ADDR_NOTSUPP, ctx\<lparr>atyp := SOCKS_ATYP_IPV4, d_port := htons (atoi p)\<rparr>)"
  using assms by (simp add: socks_set_addr4_def socks_setaddr_def Let_def after_def)

text \<open>
  C2. On a context that holds the name \<open>example.com\<close> with port 443,
  \<open>socks_set_addr4\<close> with the text \<open>300.1.1.1\<close> and the port \<open>80\<close> returns
  \<open>-SOCKS_ERR_ADDR_NOTSUPP\<close> and leaves the stored address bytes as they were, but the
  address type is IPv4 and the port is 80 afterwards: the source assigns both before it
  converts the text.
\<close>

theorem socks_set_addr4_malformed_overwrites:
  "socks_set_addr4 ctx_named (Some ''300.1.1.1'') (Some ''80'') =
     Inr (- SOCKS_ERR_ADDR_NOTSUPP, ctx_named\<lparr>atyp := SOCKS_ATYP_IPV4, d_port := 80\<rparr>)
   \<and> atyp ctx_named = SOCKS_ATYP_NAME \<and> SOCKS_ATYP_NAME \<noteq> SOCKS_ATYP_IPV4
   \<and> d_port ctx_named = 443"
proof -
  have "c_chars ''300.1.1.1'' \<noteq> []" "c_chars ''80'' \<noteq> []" by (simp_all add: c_chars_def)
  then show ?thesis
    using set_addr4_malformed [of "''300.1.1.1''" "''80''" ctx_named] inet_pton4_300
    by (simp add: atoi_80 htons_def) (simp add: ctx_named_def SOCKS_ATYP_NAME_def SOCKS_ATYP_IPV4_def)
qed

section \<open>The request frame, variant by variant\<close>

lemma after_Inr [simp]: "after (Inr x) f = f x"
  by (simp add: after_def)

lemma after_Inl [simp]: "after (Inl e) f = Inl e"
  by (simp add: after_def)

lemma connect_request_ipv4:
  assumes "atyp ctx = SOCKS_ATYP_IPV4" "4 \<le> length (d_addr ctx)"
  shows "connect_request ctx =
    Inr (Some ([SOCKS_VERSION, SOCKS_CMD_CONNECT, 0, 1] @ take 4 (d_addr ctx) @ port_bytes (d_port ctx)))"
  using assms
  by (simp add: connect_request_def req_port_def buf_put_def buf_copy_def port_bytes_def
      socks_consts)

lemma connect_request_ipv6:
  assumes "atyp ctx = SOCKS_ATYP_IPV6" "16 \<le> length (d_addr ctx)"
  shows "connect_request ctx =
    Inr (Some ([SOCKS_VERSION, SOCKS_CMD_CONNECT, 0, 4] @ take 16 (d_addr ctx) @ port_bytes (d_port ctx)))"
  using assms
  by (simp add: connect_request_def req_port_def buf_put_def buf_copy_def port_bytes_def
      socks_consts)

lemma connect_request_name:
  assumes "atyp ctx = SOCKS_ATYP_NAME" "d_name_len ctx \<le> length (d_addr ctx)"
    "d_name_len ctx \<le> 505"
  shows "connect_request ctx =
    Inr (Some ([SOCKS_VERSION, SOCKS_CMD_CONNECT, 0, 3, of_nat (d_name_len ctx)]
               @ take (d_name_len ctx) (d_addr ctx) @ port_bytes (d_port ctx)))"
  using assms
  by (simp add: connect_request_def req_port_def buf_put_def buf_copy_def port_bytes_def
      socks_consts)

lemma connect_request_other:
  assumes "atyp ctx \<noteq> SOCKS_ATYP_IPV4" "atyp ctx \<noteq> SOCKS_ATYP_NAME" "atyp ctx \<noteq> SOCKS_ATYP_IPV6"
  shows "connect_request ctx = Inr None"
  using assms
  by (simp add: connect_request_def buf_put_def)

lemma connect_request_length:
  assumes "connect_request ctx = Inr (Some req)"
  shows "length req =
    (if atyp ctx = SOCKS_ATYP_IPV4 then 4 + 4 + 2
     else if atyp ctx = SOCKS_ATYP_NAME then 4 + 1 + d_name_len ctx + 2
     else 4 + 16 + 2)"
  using assms
  by (auto simp: connect_request_def req_port_def buf_put_def buf_copy_def port_bytes_def
      socks_consts split: if_splits)

lemma connect_request_no_overrun:
  assumes "d_name_len ctx \<le> 255"
  shows "connect_request ctx \<noteq> Inl Overrun"
  using assms
  by (auto simp: connect_request_def req_port_def buf_put_def buf_copy_def port_bytes_def
      socks_consts split: if_splits)

lemma connect_request_named:
  "connect_request ctx_named = Inr (Some frame_named)"
proof -
  have "connect_request ctx_named =
    Inr (Some ([SOCKS_VERSION, SOCKS_CMD_CONNECT, 0, 3, of_nat (d_name_len ctx_named)]
               @ take (d_name_len ctx_named) (d_addr ctx_named) @ port_bytes (d_port ctx_named)))"
    by (rule connect_request_name) (simp_all add: ctx_named_def ctx_fresh_def c_bytes_def c_chars_def)
  then show ?thesis
    by (simp add: ctx_named_def ctx_fresh_def c_bytes_def c_chars_def frame_named_def port_bytes_def)
qed

section \<open>The request buffer is not overrun\<close>

text \<open>
  C9. When the stored name length is at most 255, no write of \<open>socks_connect\<close> into
  \<open>req_buf\<close> goes past its 512 bytes, for every address type: the frame it builds has
  at most \<open>4 + 1 + 255 + 2 = 262\<close> bytes.
\<close>

theorem connect_request_within_buffer:
  assumes "d_name_len ctx \<le> 255"
  shows "connect_request ctx \<noteq> Inl Overrun
    \<and> (\<forall>req. connect_request ctx = Inr (Some req) \<longrightarrow>
          length req \<le> 4 + 1 + 255 + 2 \<and> length req \<le> 512)"
proof -
  have "length req \<le> 262" if "connect_request ctx = Inr (Some req)" for req
    using connect_request_length [OF that] assms by (simp split: if_splits)
  then show ?thesis
    using connect_request_no_overrun [OF assms] by fastforce
qed

theorem connect_request_within_buffer_witness:
  "d_name_len ctx_named \<le> 255
   \<and> connect_request ctx_named = Inr (Some frame_named)
   \<and> length frame_named = 18 \<and> length frame_named \<le> 262 \<and> length frame_named \<le> 512"
proof -
  have a: "d_name_len ctx_named \<le> 255" by (simp add: ctx_named_def)
  have b: "length frame_named = 18" by (simp add: frame_named_def c_bytes_def c_chars_def)
  show ?thesis
    using connect_request_within_buffer [OF a] connect_request_named a b by simp
qed

section \<open>The request that follows a rejected destination\<close>

text \<open>
  What \<open>socks_connect\<close> builds from the contexts that the two rejected calls above leave
  behind: after the rejected IPv4 text, a request for the IPv4 address made of the first
  four bytes of the old name; after the rejected long name, a request whose length byte
  is 0 (256 in one byte), followed by all 256 bytes of the storage.
\<close>

lemma d_addr_named:
  "d_addr ctx_named = [101, 120, 97, 109, 112, 108, 101, 46, 99, 111, 109] @ replicate 245 0"
  by (simp add: ctx_named_def c_bytes_def c_chars_def)

lemma request_after_rejected_ipv4:
  "connect_request (ctx_named\<lparr>atyp := SOCKS_ATYP_IPV4, d_port := 80\<rparr>) =
     Inr (Some [5, 1, 0, 1, 101, 120, 97, 109, 0, 80])"
proof -
  let ?c = "ctx_named\<lparr>atyp := SOCKS_ATYP_IPV4, d_port := 80\<rparr>"
  have "connect_request ?c =
    Inr (Some ([SOCKS_VERSION, SOCKS_CMD_CONNECT, 0, 1] @ take 4 (d_addr ?c) @ port_bytes (d_port ?c)))"
    by (rule connect_request_ipv4) (simp_all add: d_addr_named)
  then show ?thesis by (simp add: d_addr_named port_bytes_def)
qed

lemma request_after_rejected_name:
  "connect_request (ctx_named\<lparr>d_name_len := 256\<rparr>) =
     Inr (Some ([5, 1, 0, 3, 0] @ d_addr ctx_named @ [1, 187]))
   \<and> length (d_addr ctx_named) = 256"
proof -
  let ?c = "ctx_named\<lparr>d_name_len := 256\<rparr>"
  have "connect_request ?c =
    Inr (Some ([SOCKS_VERSION, SOCKS_CMD_CONNECT, 0, 3, of_nat (d_name_len ?c)]
               @ take (d_name_len ?c) (d_addr ?c) @ port_bytes (d_port ?c)))"
    by (rule connect_request_name) (simp_all add: d_addr_named, simp add: ctx_named_def)
  moreover have "d_port ctx_named = 443" by (simp add: ctx_named_def)
  ultimately show ?thesis by (simp add: d_addr_named port_bytes_def)
qed

section \<open>The collaborators, step by step\<close>

lemma sockslib_send_ok:
  assumes "0 \<le> d" "length buf \<le> tx_room w"
  shows "sockslib_send d buf w = (0, w\<lparr>tx := tx w @ [buf], tx_room := tx_room w - length buf\<rparr>)"
  using assms by (simp add: sockslib_send_def)

lemma sockslib_send_fail:
  assumes "d < 0 \<or> tx_room w < length buf"
  shows "sockslib_send d buf w = (- SOCKS_ERR_SYS_ERRNO, w)"
  using assms by (auto simp: sockslib_send_def)

lemma sockslib_read_ok:
  assumes "0 \<le> d" "n \<le> length (rx w)"
  shows "sockslib_read d n w = (Inr (take n (rx w)), w\<lparr>rx := drop n (rx w)\<rparr>)"
  using assms by (simp add: sockslib_read_def)

section \<open>The CONNECT exchange\<close>

lemma connect_request_min_length:
  assumes "connect_request ctx = Inr (Some req)"
  shows "2 \<le> length req"
  using connect_request_length [OF assms] by (simp split: if_splits)

lemma socks_connect_unsupported:
  assumes "connect_request ctx = Inr None"
  shows "socks_connect ctx w = Inr (- SOCKS_ERR_ADDR_NOTSUPP, ctx, w)"
  using assms by (simp add: socks_connect_def)

lemma socks_connect_exchange:
  assumes req: "connect_request ctx = Inr (Some req)"
    and d: "0 \<le> fd (server ctx)"
    and room: "length req \<le> tx_room w"
    and avail: "length req \<le> length (rx w)"
  shows "socks_connect ctx w =
    Inr (if rx w ! 1 \<noteq> 0 then - uint (rx w ! 1) else fd (server ctx),
         ctx\<lparr>reply := uint (rx w ! 1)\<rparr>,
         w\<lparr>tx := tx w @ [req], tx_room := tx_room w - length req,
           rx := drop (length req) (rx w)\<rparr>)"
proof -
  have two: "1 < length req" using connect_request_min_length [OF req] by simp
  then have nth: "take (length req) (rx w) ! Suc 0 = rx w ! Suc 0" by simp
  show ?thesis
    using d room avail
    by (simp add: socks_connect_def req sockslib_send_ok sockslib_read_def Let_def nth
        unsigned_eq_0_iff)
qed

lemma socks_connect_sends:
  assumes req: "connect_request ctx = Inr (Some req)"
    and d: "0 \<le> fd (server ctx)"
    and room: "length req \<le> tx_room w"
  shows "\<exists>ret c w'. socks_connect ctx w = Inr (ret, c, w') \<and> tx w' = tx w @ [req]"
  using d room
  by (simp add: socks_connect_def req sockslib_send_ok sockslib_read_def Let_def)

text \<open>When the request went out, it is the frame that was built, and the send succeeded.\<close>

lemma socks_connect_sent_D:
  assumes run: "socks_connect ctx w = Inr (ret, ctx', w')"
    and sent: "tx w' = tx w @ [req]"
  shows "connect_request ctx = Inr (Some req) \<and> 0 \<le> fd (server ctx) \<and> length req \<le> tx_room w"
proof (cases "connect_request ctx")
  case (Inl f)
  with run show ?thesis by (simp add: socks_connect_def)
next
  case (Inr r)
  show ?thesis
  proof (cases r)
    case None
    with Inr run sent show ?thesis by (auto simp: socks_connect_def)
  next
    case (Some q)
    show ?thesis
    proof (cases "fd (server ctx) < 0 \<or> tx_room w < length q")
      case True
      then have "sockslib_send (fd (server ctx)) q w = (- SOCKS_ERR_SYS_ERRNO, w)"
        by (rule sockslib_send_fail)
      with Inr Some run sent show ?thesis
        by (auto simp: socks_connect_def Let_def SOCKS_ERR_SYS_ERRNO_def)
    next
      case False
      then have ok: "0 \<le> fd (server ctx)" "length q \<le> tx_room w" by auto
      have "tx w' = tx w @ [q]"
        using run Inr Some ok
        by (auto simp: socks_connect_def Let_def sockslib_send_ok sockslib_read_def
            split: if_splits)
      with sent have "q = req" by simp
      with Inr Some ok show ?thesis by simp
    qed
  qed
qed

section \<open>How many bytes of the reply are read\<close>

lemma connect_request_v4: "connect_request ctx_v4 = Inr (Some [5, 1, 0, 1, 127, 0, 0, 1, 0, 80])"
proof -
  have "connect_request ctx_v4 =
    Inr (Some ([SOCKS_VERSION, SOCKS_CMD_CONNECT, 0, 1] @ take 4 (d_addr ctx_v4) @ port_bytes (d_port ctx_v4)))"
    by (rule connect_request_ipv4) (simp_all add: ctx_v4_def ctx_fresh_def)
  then show ?thesis
    by (simp add: ctx_v4_def ctx_fresh_def port_bytes_def)
qed

lemma rx_net_reply:
  "rx net_reply = [5, 0, 0, 1, 10, 0, 0, 1, 31, 144, 72, 84, 84, 80, 47, 49, 46, 49, 32, 50, 48, 48]"
  by (simp add: net_reply_def c_bytes_def c_chars_def)

lemma connect_read_count_exchange:
  assumes "connect_request ctx = Inr (Some req)" "0 \<le> fd (server ctx)"
    "length req \<le> tx_room w" "length req \<le> length (rx w)"
  shows "connect_read_count ctx w = Some (length req)"
  using assms by (simp add: connect_read_count_def socks_connect_exchange)

text \<open>
  C1, as it is stated, fails. The server's reply is a frame of ten bytes (address type
  IPv4). After a request for 127.0.0.1 (ten bytes) \<open>socks_connect\<close> takes ten bytes
  from the stream; after a request for \<open>example.com\<close> (eighteen bytes) it takes
  eighteen bytes of the same stream, eight more than the reply frame has.
\<close>

theorem connect_reads_request_length_counterexample:
  "spec_reply_len (rx net_reply) = Some 10
   \<and> connect_read_count ctx_v4 net_reply = Some 10
   \<and> connect_read_count ctx_named net_reply = Some 18
   \<and> connect_read_count ctx_named net_reply \<noteq> spec_reply_len (rx net_reply)"
proof -
  have s: "spec_reply_len (rx net_reply) = Some 10"
    by (simp add: rx_net_reply spec_reply_len_def SOCKS_ATYP_IPV4_def)
  have a: "connect_read_count ctx_v4 net_reply = Some (length [5, 1, 0, 1, 127, 0, 0, 1, 0, 80 :: u8])"
    by (rule connect_read_count_exchange [OF connect_request_v4])
       (simp_all add: ctx_v4_def ctx_fresh_def rx_net_reply, simp_all add: net_reply_def)
  have b: "connect_read_count ctx_named net_reply = Some (length frame_named)"
    by (rule connect_read_count_exchange [OF connect_request_named])
       (simp_all add: ctx_named_def ctx_fresh_def rx_net_reply frame_named_def c_bytes_def c_chars_def,
        simp_all add: net_reply_def)
  have l: "length frame_named = 18" by (simp add: frame_named_def c_bytes_def c_chars_def)
  from s a b l show ?thesis by simp
qed

text \<open>
  C1, amended. When the request frame is sent and the server delivers at least as many
  bytes as the request has, \<open>socks_connect\<close> reads exactly as many bytes as the
  request frame is long (4 bytes, the address of the request's own address type,
  2 bytes), whatever the address type in the reply is, and stores the second byte read
  as the reply status.
\<close>

theorem connect_reads_request_length:
  assumes "connect_request ctx = Inr (Some req)" and "0 \<le> fd (server ctx)"
    and "length req \<le> tx_room w" and "length req \<le> length (rx w)"
  shows "connect_read_count ctx w = Some (length req)
    \<and> length req = 4 + (if atyp ctx = SOCKS_ATYP_IPV4 then 4
                        else if atyp ctx = SOCKS_ATYP_NAME then 1 + d_name_len ctx
                        else 16) + 2
    \<and> (\<exists>ret w'. socks_connect ctx w = Inr (ret, ctx\<lparr>reply := uint (rx w ! 1)\<rparr>, w'))"
proof -
  have "connect_read_count ctx w = Some (length req)"
    using assms by (rule connect_read_count_exchange)
  moreover have "length req = 4 + (if atyp ctx = SOCKS_ATYP_IPV4 then 4
                        else if atyp ctx = SOCKS_ATYP_NAME then 1 + d_name_len ctx
                        else 16) + 2"
    using connect_request_length [OF assms(1)] by simp
  moreover have "\<exists>ret w'. socks_connect ctx w = Inr (ret, ctx\<lparr>reply := uint (rx w ! 1)\<rparr>, w')"
    using socks_connect_exchange [OF assms] by simp
  ultimately show ?thesis by simp
qed

theorem connect_reads_request_length_witness:
  "connect_request ctx_named = Inr (Some frame_named) \<and> 0 \<le> fd (server ctx_named)
   \<and> length frame_named \<le> tx_room net_reply \<and> length frame_named \<le> length (rx net_reply)
   \<and> connect_read_count ctx_named net_reply = Some 18"
proof -
  have l: "length frame_named = 18" by (simp add: frame_named_def c_bytes_def c_chars_def)
  have d: "0 \<le> fd (server ctx_named)" by (simp add: ctx_named_def ctx_fresh_def)
  have r: "length frame_named \<le> tx_room net_reply" by (simp add: l net_reply_def)
  have a: "length frame_named \<le> length (rx net_reply)" by (simp add: l rx_net_reply)
  show ?thesis
    using connect_reads_request_length [OF connect_request_named d r a] connect_request_named d r a l
    by simp
qed

section \<open>What the CONNECT exchange returns\<close>

lemma sint_small32:
  assumes "- 2147483648 \<le> k" "k < 2147483648"
  shows "sint (word_of_int k :: 32 word) = k"
  using assms by (simp add: sint_sbintrunc' signed_take_bit_int_eq_self)

lemma uint_u8_less:
  fixes s :: u8
  shows "uint s < 256"
  using uint_lt2p [of s] by simp

lemma uint_pos:
  fixes x :: "'a::len word"
  assumes "x \<noteq> 0"
  shows "0 < uint x"
proof -
  have "uint x \<noteq> 0" using assms by (simp add: uint_0_iff)
  moreover have "0 \<le> uint x" by simp
  ultimately show ?thesis by linarith
qed

lemma strerror_of_status:
  fixes s :: u8
  assumes "uint s \<le> 15"
  shows "socks_strerror (word_of_int (- uint s)) = Inr (err_str ! nat (uint s))"
proof -
  have nn: "0 \<le> uint s" by simp
  have v: "sint (word_of_int (- uint s) :: 32 word) = - uint s"
  proof (rule sint_small32)
    show "- 2147483648 \<le> - uint s" using uint_u8_less [of s] by linarith
    show "- uint s < 2147483648" using nn by linarith
  qed
  have "sint (word_of_int (- uint s) :: 32 word) \<noteq> - 2147483648"
    using v uint_u8_less [of s] by linarith
  then show ?thesis
    using assms nn v by (simp add: strerror_magnitude)
qed

lemma socks_connect_send_fails:
  assumes "connect_request ctx = Inr (Some req)"
    and "fd (server ctx) < 0 \<or> tx_room w < length req"
  shows "socks_connect ctx w = Inr (- SOCKS_ERR_SYS_ERRNO, ctx, w)"
  using assms(2)
  by (simp add: socks_connect_def assms(1) sockslib_send_fail Let_def SOCKS_ERR_SYS_ERRNO_def)

lemma socks_connect_read_fails:
  assumes "connect_request ctx = Inr (Some req)" and "0 \<le> fd (server ctx)"
    and "length req \<le> tx_room w" and "length (rx w) < length req"
  shows "socks_connect ctx w =
    Inr (- SOCKS_ERR_SYS_ERRNO, ctx,
         w\<lparr>tx := tx w @ [req], tx_room := tx_room w - length req, rx := []\<rparr>)"
  using assms(2,3,4)
  by (simp add: socks_connect_def assms(1) sockslib_send_ok sockslib_read_def Let_def)

text \<open>
  C5. With an address type other than IPv4, domain name and IPv6 (the unset value 0
  among them) \<open>socks_connect\<close> returns \<open>-SOCKS_ERR_ADDR_NOTSUPP\<close> with nothing sent and
  nothing changed. Otherwise, for each of the three address types, with \<open>req\<close> the request
  frame of that type: when the descriptor is negative or the write fails, the call fails
  with nothing sent, so no negative descriptor is ever returned as a success; when the
  reply does not arrive, it fails after the request; and when the request is sent and the
  reply arrives, the context's \<open>reply\<close> is the second byte of the reply, the result is
  the descriptor stored for the server (not negative) if that byte is 0, and \<open>-s\<close> if it
  is \<open>s \<noteq> 0\<close>, a negative value from which \<open>s\<close> is recovered and for which, for the
  server's codes, \<open>socks_strerror\<close> gives the string of slot \<open>s\<close>.
\<close>

theorem socks_connect_postcondition:
  "(atyp ctx \<noteq> SOCKS_ATYP_IPV4 \<and> atyp ctx \<noteq> SOCKS_ATYP_NAME \<and> atyp ctx \<noteq> SOCKS_ATYP_IPV6 \<longrightarrow>
      socks_connect ctx w = Inr (- SOCKS_ERR_ADDR_NOTSUPP, ctx, w))
   \<and> ((atyp ctx = SOCKS_ATYP_IPV4 \<and> 4 \<le> length (d_addr ctx)
          \<and> req = [SOCKS_VERSION, SOCKS_CMD_CONNECT, 0, 1] @ take 4 (d_addr ctx)
                    @ port_bytes (d_port ctx))
        \<or> (atyp ctx = SOCKS_ATYP_NAME \<and> d_name_len ctx \<le> length (d_addr ctx)
          \<and> d_name_len ctx \<le> 255
          \<and> req = [SOCKS_VERSION, SOCKS_CMD_CONNECT, 0, 3, of_nat (d_name_len ctx)]
                    @ take (d_name_len ctx) (d_addr ctx) @ port_bytes (d_port ctx))
        \<or> (atyp ctx = SOCKS_ATYP_IPV6 \<and> 16 \<le> length (d_addr ctx)
          \<and> req = [SOCKS_VERSION, SOCKS_CMD_CONNECT, 0, 4] @ take 16 (d_addr ctx)
                    @ port_bytes (d_port ctx))
       \<longrightarrow>
         (fd (server ctx) < 0 \<or> tx_room w < length req \<longrightarrow>
            socks_connect ctx w = Inr (- SOCKS_ERR_SYS_ERRNO, ctx, w))
       \<and> (0 \<le> fd (server ctx) \<and> length req \<le> tx_room w \<and> length (rx w) < length req \<longrightarrow>
            socks_connect ctx w =
              Inr (- SOCKS_ERR_SYS_ERRNO, ctx,
                   w\<lparr>tx := tx w @ [req], tx_room := tx_room w - length req, rx := []\<rparr>))
       \<and> (0 \<le> fd (server ctx) \<and> length req \<le> tx_room w \<and> length req \<le> length (rx w) \<longrightarrow>
            socks_connect ctx w =
              Inr (if rx w ! 1 = 0 then fd (server ctx) else - uint (rx w ! 1),
                   ctx\<lparr>reply := uint (rx w ! 1)\<rparr>,
                   w\<lparr>tx := tx w @ [req], tx_room := tx_room w - length req,
                     rx := drop (length req) (rx w)\<rparr>)
            \<and> (rx w ! 1 = 0 \<longrightarrow> 0 \<le> fd (server ctx))
            \<and> (rx w ! 1 \<noteq> 0 \<longrightarrow>
                 - uint (rx w ! 1) < 0 \<and> word_of_int (- (- uint (rx w ! 1))) = rx w ! 1)
            \<and> (uint (rx w ! 1) \<le> 8 \<longrightarrow>
                 socks_strerror (word_of_int (- uint (rx w ! 1)))
                   = Inr (err_str ! nat (uint (rx w ! 1))))))"
proof -
  have unset: "socks_connect ctx w = Inr (- SOCKS_ERR_ADDR_NOTSUPP, ctx, w)"
    if "atyp ctx \<noteq> SOCKS_ATYP_IPV4 \<and> atyp ctx \<noteq> SOCKS_ATYP_NAME \<and> atyp ctx \<noteq> SOCKS_ATYP_IPV6"
  proof -
    from that have "connect_request ctx = Inr None" by (intro connect_request_other) simp_all
    then show ?thesis by (rule socks_connect_unsupported)
  qed
  have built: "connect_request ctx = Inr (Some req)"
    if "(atyp ctx = SOCKS_ATYP_IPV4 \<and> 4 \<le> length (d_addr ctx)
          \<and> req = [SOCKS_VERSION, SOCKS_CMD_CONNECT, 0, 1] @ take 4 (d_addr ctx)
                    @ port_bytes (d_port ctx))
        \<or> (atyp ctx = SOCKS_ATYP_NAME \<and> d_name_len ctx \<le> length (d_addr ctx)
          \<and> d_name_len ctx \<le> 255
          \<and> req = [SOCKS_VERSION, SOCKS_CMD_CONNECT, 0, 3, of_nat (d_name_len ctx)]
                    @ take (d_name_len ctx) (d_addr ctx) @ port_bytes (d_port ctx))
        \<or> (atyp ctx = SOCKS_ATYP_IPV6 \<and> 16 \<le> length (d_addr ctx)
          \<and> req = [SOCKS_VERSION, SOCKS_CMD_CONNECT, 0, 4] @ take 16 (d_addr ctx)
                    @ port_bytes (d_port ctx))"
    using that
  proof (elim disjE conjE)
    assume "atyp ctx = SOCKS_ATYP_IPV4" "4 \<le> length (d_addr ctx)"
      and r: "req = [SOCKS_VERSION, SOCKS_CMD_CONNECT, 0, 1] @ take 4 (d_addr ctx)
                    @ port_bytes (d_port ctx)"
    then show ?thesis unfolding r by (intro connect_request_ipv4)
  next
    assume "atyp ctx = SOCKS_ATYP_NAME" "d_name_len ctx \<le> length (d_addr ctx)"
      "d_name_len ctx \<le> 255"
      and r: "req = [SOCKS_VERSION, SOCKS_CMD_CONNECT, 0, 3, of_nat (d_name_len ctx)]
                    @ take (d_name_len ctx) (d_addr ctx) @ port_bytes (d_port ctx)"
    then show ?thesis unfolding r by (intro connect_request_name) simp_all
  next
    assume "atyp ctx = SOCKS_ATYP_IPV6" "16 \<le> length (d_addr ctx)"
      and r: "req = [SOCKS_VERSION, SOCKS_CMD_CONNECT, 0, 4] @ take 16 (d_addr ctx)
                    @ port_bytes (d_port ctx)"
    then show ?thesis unfolding r by (intro connect_request_ipv6)
  qed
  have str: "socks_strerror (word_of_int (- uint (rx w ! 1))) = Inr (err_str ! nat (uint (rx w ! 1)))"
    if "uint (rx w ! 1) \<le> 8"
  proof -
    from that have "uint (rx w ! 1) \<le> 15" by simp
    then show ?thesis by (rule strerror_of_status)
  qed
  have neg: "- uint (rx w ! 1) < 0 \<and> word_of_int (- (- uint (rx w ! 1))) = rx w ! 1"
    if "rx w ! 1 \<noteq> 0"
    using uint_pos [OF that] by simp
  have exch: "socks_connect ctx w =
              Inr (if rx w ! 1 = 0 then fd (server ctx) else - uint (rx w ! 1),
                   ctx\<lparr>reply := uint (rx w ! 1)\<rparr>,
                   w\<lparr>tx := tx w @ [req], tx_room := tx_room w - length req,
                     rx := drop (length req) (rx w)\<rparr>)"
    if "connect_request ctx = Inr (Some req)"
      "0 \<le> fd (server ctx) \<and> length req \<le> tx_room w \<and> length req \<le> length (rx w)"
    using socks_connect_exchange [OF that(1), of w] that(2) by simp
  have sfail: "socks_connect ctx w = Inr (- SOCKS_ERR_SYS_ERRNO, ctx, w)"
    if "connect_request ctx = Inr (Some req)" "fd (server ctx) < 0 \<or> tx_room w < length req"
    using that by (rule socks_connect_send_fails)
  have rfail: "socks_connect ctx w =
              Inr (- SOCKS_ERR_SYS_ERRNO, ctx,
                   w\<lparr>tx := tx w @ [req], tx_room := tx_room w - length req, rx := []\<rparr>)"
    if "connect_request ctx = Inr (Some req)"
      "0 \<le> fd (server ctx) \<and> length req \<le> tx_room w \<and> length (rx w) < length req"
    using socks_connect_read_fails [OF that(1), of w] that(2) by simp
  show ?thesis
    using unset built str neg exch sfail rfail by blast
qed

theorem socks_connect_postcondition_witness:
  "socks_connect ctx_fresh net_reply = Inr (- 8, ctx_fresh, net_reply)
   \<and> socks_connect ctx_v4 net_reply =
       Inr (3, ctx_v4\<lparr>reply := 0\<rparr>,
            net_reply\<lparr>tx := [[5, 1, 0, 1, 127, 0, 0, 1, 0, 80]], tx_room := 4086,
                      rx := [72, 84, 84, 80, 47, 49, 46, 49, 32, 50, 48, 48]\<rparr>)
   \<and> fd (server ctx_v4) = 3
   \<and> socks_connect ctx_v4 net_refused =
       Inr (- 5, ctx_v4\<lparr>reply := 5\<rparr>,
            net_refused\<lparr>tx := [[5, 1, 0, 1, 127, 0, 0, 1, 0, 80]], tx_room := 4086, rx := []\<rparr>)
   \<and> socks_strerror (- 5) = Inr ''Connection refused''
   \<and> socks_connect ctx_named net_reply =
       Inr (3, ctx_named\<lparr>reply := 0\<rparr>,
            net_reply\<lparr>tx := [frame_named], tx_room := 4078, rx := [32, 50, 48, 48]\<rparr>)
   \<and> socks_connect ctx_v6 net_reply =
       Inr (3, ctx_v6\<lparr>reply := 0\<rparr>,
            net_reply\<lparr>tx := [[5, 1, 0, 4, 32, 1, 13, 184, 0, 0, 0, 0, 0, 0, 0, 0, 0, 0, 0, 1,
                              1, 187]],
                      tx_room := 4074, rx := []\<rparr>)
   \<and> socks_connect ctx_v6 net_refused =
       Inr (- 15, ctx_v6,
            net_refused\<lparr>tx := [[5, 1, 0, 4, 32, 1, 13, 184, 0, 0, 0, 0, 0, 0, 0, 0, 0, 0, 0, 1,
                                1, 187]],
                        tx_room := 4074, rx := []\<rparr>)
   \<and> socks_connect ctx_unbound net_reply = Inr (- 15, ctx_unbound, net_reply)"
proof -
  have unset: "socks_connect ctx_fresh net_reply = Inr (- 8, ctx_fresh, net_reply)"
    using socks_connect_postcondition [where ctx = ctx_fresh and w = net_reply]
    by (simp add: ctx_fresh_def socks_consts)
  have v4: "socks_connect ctx_v4 net_reply =
       Inr (3, ctx_v4\<lparr>reply := 0\<rparr>,
            net_reply\<lparr>tx := [[5, 1, 0, 1, 127, 0, 0, 1, 0, 80]], tx_room := 4086,
                      rx := [72, 84, 84, 80, 47, 49, 46, 49, 32, 50, 48, 48]\<rparr>)
       \<and> fd (server ctx_v4) = 3"
    using socks_connect_postcondition [where ctx = ctx_v4 and w = net_reply
        and req = "[5, 1, 0, 1, 127, 0, 0, 1, 0, 80]"]
    by (simp add: rx_net_reply port_bytes_def ctx_v4_def ctx_fresh_def socks_consts)
       (simp add: net_reply_def)
  have refused: "socks_connect ctx_v4 net_refused =
       Inr (- 5, ctx_v4\<lparr>reply := 5\<rparr>,
            net_refused\<lparr>tx := [[5, 1, 0, 1, 127, 0, 0, 1, 0, 80]], tx_room := 4086, rx := []\<rparr>)
       \<and> socks_strerror (- 5) = Inr ''Connection refused''"
    using socks_connect_postcondition [where ctx = ctx_v4 and w = net_refused
        and req = "[5, 1, 0, 1, 127, 0, 0, 1, 0, 80]"]
    by (simp add: net_refused_def port_bytes_def ctx_v4_def ctx_fresh_def socks_consts
        err_str_def)
  have l: "length frame_named = 18" by (simp add: frame_named_def c_bytes_def c_chars_def)
  have f: "[SOCKS_VERSION, SOCKS_CMD_CONNECT, 0, 3, of_nat (d_name_len ctx_named)]
             @ take (d_name_len ctx_named) (d_addr ctx_named) @ port_bytes (d_port ctx_named)
           = frame_named"
    by (simp add: d_addr_named frame_named_def c_bytes_def c_chars_def port_bytes_def)
       (simp add: ctx_named_def port_bytes_def)
  have named: "socks_connect ctx_named net_reply =
       Inr (3, ctx_named\<lparr>reply := 0\<rparr>,
            net_reply\<lparr>tx := [frame_named], tx_room := 4078, rx := [32, 50, 48, 48]\<rparr>)"
    using socks_connect_postcondition [where ctx = ctx_named and w = net_reply
        and req = frame_named] f l
    by (simp add: rx_net_reply d_addr_named)
       (simp add: ctx_named_def ctx_fresh_def net_reply_def socks_consts)
  have v6: "socks_connect ctx_v6 net_reply =
       Inr (3, ctx_v6\<lparr>reply := 0\<rparr>,
            net_reply\<lparr>tx := [[5, 1, 0, 4, 32, 1, 13, 184, 0, 0, 0, 0, 0, 0, 0, 0, 0, 0, 0, 1,
                              1, 187]],
                      tx_room := 4074, rx := []\<rparr>)"
    using socks_connect_postcondition [where ctx = ctx_v6 and w = net_reply
        and req = "[5, 1, 0, 4, 32, 1, 13, 184, 0, 0, 0, 0, 0, 0, 0, 0, 0, 0, 0, 1, 1, 187]"]
    by (simp add: rx_net_reply port_bytes_def ctx_v6_def ctx_fresh_def socks_consts)
       (simp add: net_reply_def)
  have short: "socks_connect ctx_v6 net_refused =
       Inr (- 15, ctx_v6,
            net_refused\<lparr>tx := [[5, 1, 0, 4, 32, 1, 13, 184, 0, 0, 0, 0, 0, 0, 0, 0, 0, 0, 0, 1,
                                1, 187]],
                        tx_room := 4074, rx := []\<rparr>)"
    using socks_connect_postcondition [where ctx = ctx_v6 and w = net_refused
        and req = "[5, 1, 0, 4, 32, 1, 13, 184, 0, 0, 0, 0, 0, 0, 0, 0, 0, 0, 0, 1, 1, 187]"]
    by (simp add: net_refused_def port_bytes_def ctx_v6_def ctx_fresh_def socks_consts)
  have unbound: "socks_connect ctx_unbound net_reply = Inr (- 15, ctx_unbound, net_reply)"
    using socks_connect_postcondition [where ctx = ctx_unbound and w = net_reply
        and req = "[5, 1, 0, 1, 127, 0, 0, 1, 0, 80]"]
    by (simp add: port_bytes_def ctx_unbound_def ctx_v4_def ctx_fresh_def socks_consts)
  from unset v4 refused named v6 short unbound show ?thesis by simp
qed

section \<open>A domain name set after an IPv4 address\<close>

lemma length_c_bytes [simp]: "length (c_bytes s) = strlen s"
  by (simp add: c_bytes_def strlen_def)

lemma set_addrname_ok_D:
  assumes "socks_set_addrname c1 (Some nm) (Some p) = Inr (SOCKS_ERR_OK, c2)"
  shows "strlen nm \<le> 255 \<and> strlen nm \<le> length (d_addr c1)
    \<and> c2 = c1\<lparr>d_name_len := strlen nm, atyp := SOCKS_ATYP_NAME, d_port := htons (atoi p),
              d_addr := c_bytes nm @ drop (strlen nm) (d_addr c1)\<rparr>"
  using assms
  by (auto simp: socks_set_addrname_def Let_def memcpy_def SOCKS_ERR_OK_def SOCKS_ERR_BAD_ARG_def
      SOCKS_ERR_TOO_LONG_def split: if_splits)

lemma set_addr4_ok_D:
  assumes "socks_set_addr4 ctx (Some ip) (Some p) = Inr (SOCKS_ERR_OK, c1)"
  shows "\<exists>bs. inet_pton4 ip = Some bs
    \<and> c1 = ctx\<lparr>atyp := SOCKS_ATYP_IPV4, d_port := htons (atoi p),
              d_addr := take 4 bs @ drop 4 (d_addr ctx)\<rparr>"
  using assms
  by (auto simp: socks_set_addr4_def socks_setaddr_def Let_def memcpy_def SOCKS_ERR_OK_def
      SOCKS_ERR_BAD_ARG_def SOCKS_ERR_ADDR_NOTSUPP_def split: if_splits option.splits)

text \<open>
  C8. After \<open>socks_set_addr4\<close> succeeded and \<open>socks_set_addrname\<close> then succeeded on its
  result, the address type is the domain name, and the request \<open>socks_connect\<close> builds
  and sends is version, CONNECT, 0, address type 3, the length of the name, the bytes of
  the name and the two bytes of the port given with the name: it is determined by the
  name and its port alone, whatever IPv4 text and port were set before.
\<close>

theorem name_after_ipv4_sends_name_only:
  assumes v4: "socks_set_addr4 ctx (Some ip) (Some p4) = Inr (SOCKS_ERR_OK, c1)"
    and nm: "socks_set_addrname c1 (Some nm) (Some p) = Inr (SOCKS_ERR_OK, c2)"
  shows "atyp c1 = SOCKS_ATYP_IPV4 \<and> atyp c2 = SOCKS_ATYP_NAME
    \<and> connect_request c2 =
        Inr (Some ([SOCKS_VERSION, SOCKS_CMD_CONNECT, 0, 3, of_nat (strlen nm)]
                   @ c_bytes nm @ port_bytes (htons (atoi p))))
    \<and> (0 \<le> fd (server c2) \<and> 4 + 1 + strlen nm + 2 \<le> tx_room w \<longrightarrow>
         (\<exists>ret c3 w'. socks_connect c2 w = Inr (ret, c3, w')
            \<and> tx w' = tx w @ [[SOCKS_VERSION, SOCKS_CMD_CONNECT, 0, 3, of_nat (strlen nm)]
                               @ c_bytes nm @ port_bytes (htons (atoi p))]))"
proof -
  let ?frame = "[SOCKS_VERSION, SOCKS_CMD_CONNECT, 0, 3, of_nat (strlen nm)]
                   @ c_bytes nm @ port_bytes (htons (atoi p))"
  from set_addr4_ok_D [OF v4] have t1: "atyp c1 = SOCKS_ATYP_IPV4" by auto
  from set_addrname_ok_D [OF nm]
  have le: "strlen nm \<le> 255" and fit: "strlen nm \<le> length (d_addr c1)"
    and c2: "c2 = c1\<lparr>d_name_len := strlen nm, atyp := SOCKS_ATYP_NAME, d_port := htons (atoi p),
              d_addr := c_bytes nm @ drop (strlen nm) (d_addr c1)\<rparr>"
    by simp_all
  have t2: "atyp c2 = SOCKS_ATYP_NAME" by (simp add: c2)
  have "connect_request c2 =
    Inr (Some ([SOCKS_VERSION, SOCKS_CMD_CONNECT, 0, 3, of_nat (d_name_len c2)]
               @ take (d_name_len c2) (d_addr c2) @ port_bytes (d_port c2)))"
    using le fit by (intro connect_request_name) (simp_all add: c2)
  then have req: "connect_request c2 = Inr (Some ?frame)"
    by (simp add: c2)
  have len: "length ?frame = 4 + 1 + strlen nm + 2"
    by (simp add: port_bytes_def)
  have sent: "\<exists>ret c3 w'. socks_connect c2 w = Inr (ret, c3, w') \<and> tx w' = tx w @ [?frame]"
    if "0 \<le> fd (server c2) \<and> 4 + 1 + strlen nm + 2 \<le> tx_room w"
  proof (rule socks_connect_sends [OF req])
    from that show "0 \<le> fd (server c2)" by simp
    from that len show "length ?frame \<le> tx_room w" by simp
  qed
  from t1 t2 req sent show ?thesis by blast
qed

lemma set_addr4_example:
  "socks_set_addr4 ctx_fresh (Some ''127.0.0.1'') (Some ''80'') = Inr (SOCKS_ERR_OK, ctx_v4)"
  by (simp add: socks_set_addr4_def socks_setaddr_def inet_pton4_loopback atoi_80 htons_def
      memcpy_def Let_def c_chars_def ctx_v4_def ctx_fresh_def socks_consts)

lemma set_addrname_after_v4:
  "socks_set_addrname ctx_v4 (Some ''example.com'') (Some ''443'') = Inr (SOCKS_ERR_OK, ctx_named)"
  by (simp add: socks_set_addrname_def ctx_named_def ctx_v4_def ctx_fresh_def c_chars_def strlen_def
      Let_def memcpy_def c_bytes_def atoi_443 htons_def socks_consts)

theorem name_after_ipv4_sends_name_only_witness:
  "socks_set_addr4 ctx_fresh (Some ''127.0.0.1'') (Some ''80'') = Inr (SOCKS_ERR_OK, ctx_v4)
   \<and> socks_set_addrname ctx_v4 (Some ''example.com'') (Some ''443'') = Inr (SOCKS_ERR_OK, ctx_named)
   \<and> connect_request ctx_named = Inr (Some frame_named)
   \<and> (\<exists>ret c3 w'. socks_connect ctx_named net_reply = Inr (ret, c3, w')
         \<and> tx w' = [frame_named])"
proof -
  have d: "0 \<le> fd (server ctx_named) \<and> 4 + 1 + strlen ''example.com'' + 2 \<le> tx_room net_reply"
    by (simp add: ctx_named_def ctx_fresh_def net_reply_def strlen_def c_chars_def)
  have f: "[SOCKS_VERSION, SOCKS_CMD_CONNECT, 0, 3, of_nat (strlen ''example.com'')]
             @ c_bytes ''example.com'' @ port_bytes (htons (atoi ''443'')) = frame_named"
    by (simp add: frame_named_def strlen_def c_bytes_def c_chars_def atoi_443 htons_def
        port_bytes_def)
  have t: "tx net_reply = []" by (simp add: net_reply_def)
  show ?thesis
    using name_after_ipv4_sends_name_only [OF set_addr4_example set_addrname_after_v4,
        where w = net_reply] d set_addr4_example set_addrname_after_v4
    unfolding f t by simp
qed

section \<open>Method negotiation and the sub-negotiation, path by path\<close>

lemma get_auth_method_ok:
  assumes "0 \<le> d" "4 \<le> tx_room w" "rx w = v # m # rest"
  shows "socks_get_auth_method d w =
    (uint m, w\<lparr>tx := tx w @ [[SOCKS_VERSION, 2, 0, 2]], tx_room := tx_room w - 4, rx := rest\<rparr>)"
  using assms
  by (simp add: socks_get_auth_method_def sockslib_send_def sockslib_read_def Let_def
      SOCKS_NO_AUTH_def SOCKS_AUTH_USERPASS_def)

lemma userpass_frame_layout:
  assumes "user_len a \<le> length (username a)" "pass_len a \<le> length (password a)"
  shows "userpass_frame a = Inr (spec_userpass_layout a)"
  using assms
  by (simp add: userpass_frame_def spec_userpass_layout_def buf_put_def buf_copy_def Let_def)

lemma userpass_frame_method [simp]:
  "userpass_frame (a\<lparr>auth_method := k\<rparr>) = userpass_frame a"
  by (simp add: userpass_frame_def)

lemma length_spec_userpass_layout:
  assumes "user_len a \<le> length (username a)" "pass_len a \<le> length (password a)"
  shows "length (spec_userpass_layout a) = 1 + 1 + user_len a + 1 + pass_len a"
  using assms by (simp add: spec_userpass_layout_def)





lemma connect_server_userpass_sends:
  assumes "s_addr (server ctx) = Some x" "0 \<le> conn_ret w" "0 \<le> fd (server ctx)"
    "4 \<le> tx_room w" "rx w = v # m # rest" "uint m = SOCKS_AUTH_USERPASS"
    "heap_ok w" "userpass_frame (auth ctx) = Inr F" "4 + length F \<le> tx_room w"
  shows "\<exists>ret c w'. socks_connect_server ctx w = Inr (ret, c, w')
    \<and> tx w' = tx w @ [[SOCKS_VERSION, 2, 0, 2], F]"
proof -
  have room: "\<not> tx_room w - 4 < length F" using assms(9) by linarith
  show ?thesis
    using assms room
    by (simp add: socks_connect_server_def get_auth_method_ok [OF assms(3,4,5)] Let_def
        SOCKS_NO_AUTH_def SOCKS_AUTH_USERPASS_def sockslib_send_def sockslib_read_def)
qed


section \<open>The frame of the sub-negotiation\<close>

text \<open>What \<open>socks_set_auth\<close> leaves in the context when it succeeds.\<close>

lemma set_auth_ok_D:
  assumes "socks_set_auth ctx (Some u) (Some p) = Inr (SOCKS_ERR_OK, c)"
  shows "user_len (auth c) = strlen u \<and> pass_len (auth c) = strlen p
    \<and> user_len (auth c) \<le> 255 \<and> pass_len (auth c) \<le> 255
    \<and> user_len (auth c) \<le> length (username (auth c))
    \<and> pass_len (auth c) \<le> length (password (auth c))
    \<and> take (user_len (auth c)) (username (auth c)) = c_bytes u
    \<and> take (pass_len (auth c)) (password (auth c)) = c_bytes p"
  using assms
  by (auto simp: socks_set_auth_def Let_def memcpy_def SOCKS_ERR_OK_def SOCKS_ERR_BAD_ARG_def
      SOCKS_ERR_BAD_AUTH_def split: if_splits)

lemma unat_u8_of_nat:
  assumes "n \<le> 255"
  shows "unat (of_nat n :: u8) = n"
  using assms by (simp add: unsigned_of_nat take_bit_nat_eq_self)

lemma spec_userpass_layout_nth:
  assumes "user_len a \<le> length (username a)"
  shows "spec_userpass_layout a ! 1 = of_nat (user_len a)"
    and "spec_userpass_layout a ! (2 + user_len a) = of_nat (pass_len a)"
  using assms by (simp_all add: spec_userpass_layout_def nth_append)

text \<open>
  C6. For a context whose stored credentials have the lengths \<open>ulen\<close> and \<open>plen\<close> (each
  at most 255 and within its array), the frame \<open>socks_connect_server\<close> builds for the
  sub-negotiation is the layout of the specification: version, \<open>ulen\<close>, the user name,
  \<open>plen\<close>, the password, \<open>1 + 1 + ulen + 1 + plen\<close> bytes in all, and it is the frame
  sent after the method request when the server selects username/password. For the
  lengths 5 and 8 it has 16 bytes, with 5 at index 1 and 8 at index 7.
\<close>

theorem userpass_frame_is_spec_layout:
  assumes ul: "user_len (auth ctx) \<le> length (username (auth ctx))"
    and pl: "pass_len (auth ctx) \<le> length (password (auth ctx))"
    and ub: "user_len (auth ctx) \<le> 255"
    and pb: "pass_len (auth ctx) \<le> 255"
  shows "userpass_frame (auth ctx) = Inr (spec_userpass_layout (auth ctx))
    \<and> length (spec_userpass_layout (auth ctx))
        = 1 + 1 + user_len (auth ctx) + 1 + pass_len (auth ctx)
    \<and> unat (spec_userpass_layout (auth ctx) ! 1) = user_len (auth ctx)
    \<and> unat (spec_userpass_layout (auth ctx) ! (2 + user_len (auth ctx))) = pass_len (auth ctx)
    \<and> (user_len (auth ctx) = 5 \<and> pass_len (auth ctx) = 8 \<longrightarrow>
         length (spec_userpass_layout (auth ctx)) = 16
         \<and> spec_userpass_layout (auth ctx) ! 1 = 5
         \<and> spec_userpass_layout (auth ctx) ! 7 = 8)
    \<and> (s_addr (server ctx) = Some x \<and> 0 \<le> conn_ret w \<and> 0 \<le> fd (server ctx)
         \<and> rx w = v # 2 # rest \<and> heap_ok w
         \<and> 4 + length (spec_userpass_layout (auth ctx)) \<le> tx_room w \<longrightarrow>
         (\<exists>ret c w'. socks_connect_server ctx w = Inr (ret, c, w')
            \<and> tx w' = tx w @ [[SOCKS_VERSION, 2, 0, 2], spec_userpass_layout (auth ctx)]))"
proof -
  let ?F = "spec_userpass_layout (auth ctx)"
  have frame: "userpass_frame (auth ctx) = Inr ?F"
    using ul pl by (rule userpass_frame_layout)
  have len: "length ?F = 1 + 1 + user_len (auth ctx) + 1 + pass_len (auth ctx)"
    using ul pl by (rule length_spec_userpass_layout)
  have b1: "unat (?F ! 1) = user_len (auth ctx)"
    using spec_userpass_layout_nth(1) [OF ul] unat_u8_of_nat [OF ub] by simp
  have b2: "unat (?F ! (2 + user_len (auth ctx))) = pass_len (auth ctx)"
    using spec_userpass_layout_nth(2) [OF ul] unat_u8_of_nat [OF pb] by simp
  have five: "length ?F = 16 \<and> ?F ! 1 = 5 \<and> ?F ! 7 = 8"
    if "user_len (auth ctx) = 5 \<and> pass_len (auth ctx) = 8"
    using that len spec_userpass_layout_nth [OF ul] by simp
  have sent: "\<exists>ret c w'. socks_connect_server ctx w = Inr (ret, c, w')
            \<and> tx w' = tx w @ [[SOCKS_VERSION, 2, 0, 2], ?F]"
    if h: "s_addr (server ctx) = Some x \<and> 0 \<le> conn_ret w \<and> 0 \<le> fd (server ctx)
         \<and> rx w = v # 2 # rest \<and> heap_ok w \<and> 4 + length ?F \<le> tx_room w"
  proof (rule connect_server_userpass_sends [where m = 2 and v = v and rest = rest and x = x])
    show "uint (2 :: u8) = SOCKS_AUTH_USERPASS" by (simp add: SOCKS_AUTH_USERPASS_def)
    show "userpass_frame (auth ctx) = Inr ?F" by (rule frame)
    from h show "4 \<le> tx_room w" by linarith
  qed (use h in simp_all)
  from frame len b1 b2 five sent show ?thesis by blast
qed

lemma set_auth_example:
  "socks_set_auth ctx_fresh (Some ''admin'') (Some ''password'') = Inr (SOCKS_ERR_OK, ctx_creds)"
  by (simp add: socks_set_auth_def strlen_def c_chars_def c_bytes_def memcpy_def Let_def
      ctx_creds_def ctx_fresh_def SOCKS_ERR_OK_def)

lemma layout_creds:
  "spec_userpass_layout (auth ctx_creds) =
     [1, 5, 97, 100, 109, 105, 110, 8, 112, 97, 115, 115, 119, 111, 114, 100]"
  by (simp add: spec_userpass_layout_def ctx_creds_def ctx_fresh_def c_bytes_def c_chars_def)

theorem userpass_frame_is_spec_layout_witness:
  "socks_set_auth ctx_fresh (Some ''admin'') (Some ''password'') = Inr (SOCKS_ERR_OK, ctx_creds)
   \<and> user_len (auth ctx_creds) = 5 \<and> pass_len (auth ctx_creds) = 8
   \<and> userpass_frame (auth ctx_creds) =
       Inr [1, 5, 97, 100, 109, 105, 110, 8, 112, 97, 115, 115, 119, 111, 114, 100]
   \<and> length [1, 5, 97, 100, 109, 105, 110, 8, 112, 97, 115, 115, 119, 111, 114, 100 :: u8] = 16
   \<and> (\<exists>ret c w'. socks_connect_server ctx_creds net_badauth = Inr (ret, c, w')
        \<and> tx w' = [[5, 2, 0, 2],
                    [1, 5, 97, 100, 109, 105, 110, 8, 112, 97, 115, 115, 119, 111, 114, 100]])"
proof -
  have a: "user_len (auth ctx_creds) \<le> length (username (auth ctx_creds))"
    "pass_len (auth ctx_creds) \<le> length (password (auth ctx_creds))"
    "user_len (auth ctx_creds) \<le> 255" "pass_len (auth ctx_creds) \<le> 255"
    by (simp_all add: ctx_creds_def ctx_fresh_def c_bytes_def c_chars_def)
  have l: "user_len (auth ctx_creds) = 5 \<and> pass_len (auth ctx_creds) = 8"
    by (simp add: ctx_creds_def)
  have n: "s_addr (server ctx_creds) = Some 0 \<and> 0 \<le> conn_ret net_badauth
     \<and> 0 \<le> fd (server ctx_creds) \<and> rx net_badauth = 5 # 2 # [1, 1] \<and> heap_ok net_badauth
     \<and> 4 + length (spec_userpass_layout (auth ctx_creds)) \<le> tx_room net_badauth"
    by (simp add: layout_creds) (simp add: ctx_creds_def ctx_fresh_def net_badauth_def)
  have t: "tx net_badauth = []" by (simp add: net_badauth_def)
  show ?thesis
    using userpass_frame_is_spec_layout [OF a, where w = net_badauth and x = 0 and v = 5
        and rest = "[1, 1]"] l n set_auth_example
    unfolding layout_creds t by simp
qed

section \<open>The dispatch on the selected method\<close>




end
